theory Spec2Isabelle
  imports Complex_Main "HOL-Library.Sublist"
begin

section \<open>Python values, exceptions and string operations\<close>

text \<open>
  A Python exception is modelled by the text that \<^verbatim>\<open>str(e)\<close> gives and by the exception
  it was raised \<^verbatim>\<open>from\<close>, if any. A Python call either raises (\<open>Inl\<close>) or returns
  (\<open>Inr\<close>). Only exceptions below \<^verbatim>\<open>Exception\<close> are modelled, the ones that
  \<^verbatim>\<open>except Exception\<close> catches. Strings are lists of 8-bit characters, so the model covers
  Python strings whose code points are below 256.
\<close>

datatype exn = Exception (str_exn: string) (cause: "exn option")

text \<open>
  The values found in the dictionaries the tools receive: a JSON string, null or integer.
\<close>

datatype pyval = PStr string | PNone | PInt int

type_synonym pydict = "string \<rightharpoonup> pyval"

text \<open>\<^verbatim>\<open>d.get(key, default)\<close>\<close>

definition get :: "pydict \<Rightarrow> string \<Rightarrow> pyval \<Rightarrow> pyval" where
  "get d key dflt = (case d key of None \<Rightarrow> dflt | Some v \<Rightarrow> v)"

text \<open>\<^verbatim>\<open>str(n)\<close> for a natural number and for an integer: the decimal digits.\<close>

fun str_nat :: "nat \<Rightarrow> string" where
  "str_nat n =
     (if n < 10 then [char_of (48 + n)]
      else str_nat (n div 10) @ [char_of (48 + n mod 10)])"

declare str_nat.simps [simp del]

definition str_int :: "int \<Rightarrow> string" where
  "str_int i = (if i < 0 then CHR ''-'' # str_nat (nat (- i)) else str_nat (nat i))"

text \<open>What an f-string puts in place of \<^verbatim>\<open>{v}\<close>.\<close>

fun format :: "pyval \<Rightarrow> string" where
  "format (PStr s) = s"
| "format PNone = ''None''"
| "format (PInt i) = str_int i"

text \<open>
  \<^verbatim>\<open>v[:200]\<close>: the first 200 characters of a string; \<^verbatim>\<open>None\<close> and integers raise
  \<^verbatim>\<open>TypeError\<close>.
\<close>

fun slice200 :: "pyval \<Rightarrow> exn + pyval" where
  "slice200 (PStr s) = Inr (PStr (take 200 s))"
| "slice200 PNone = Inl (Exception '''NoneType' object is not subscriptable'' None)"
| "slice200 (PInt i) = Inl (Exception '''int' object is not subscriptable'' None)"

text \<open>\<^verbatim>\<open>sep.join(xs)\<close>\<close>

fun join :: "string \<Rightarrow> string list \<Rightarrow> string" where
  "join sep [] = []"
| "join sep [x] = x"
| "join sep (x # y # ys) = x @ sep @ join sep (y # ys)"

text \<open>
  \<^verbatim>\<open>str.isspace\<close> on one character, for code points below 256, and \<^verbatim>\<open>s.strip()\<close>.
\<close>

definition isspace :: "char \<Rightarrow> bool" where
  "isspace c \<longleftrightarrow> (of_char c :: nat) \<in> {9, 10, 11, 12, 13, 28, 29, 30, 31, 32, 133, 160}"

definition strip :: "string \<Rightarrow> string" where
  "strip s = rev (dropWhile isspace (rev (dropWhile isspace s)))"

text \<open>\<^verbatim>\<open>s.split(c)\<close> with a one-character separator: one piece more than separators.\<close>

fun split :: "char \<Rightarrow> string \<Rightarrow> string list" where
  "split c [] = [[]]"
| "split c (x # xs) =
     (if x = c then [] # split c xs
      else (case split c xs of [] \<Rightarrow> [[x]] | w # ws \<Rightarrow> (x # w) # ws))"

text \<open>\<^verbatim>\<open>enumerate(xs, i)\<close>\<close>

fun enumerate_from :: "nat \<Rightarrow> 'a list \<Rightarrow> (nat \<times> 'a) list" where
  "enumerate_from i [] = []"
| "enumerate_from i (x # xs) = (i, x) # enumerate_from (Suc i) xs"


section \<open>services/duckduckgo\_search.py\<close>

text \<open>
  The members of \<^verbatim>\<open>SearchSource\<close> that the sources name (its declaration is in the
  \<^verbatim>\<open>models\<close> package).
\<close>

datatype SearchSource = GOOGLE | ARXIV | DUCKDUCKGO

text \<open>
  \<^verbatim>\<open>DuckDuckGoSearchService.search\<close>. The provider call \<^verbatim>\<open>self.ddgs.text\<close> and the
  constructor of the \<^verbatim>\<open>SearchResult\<close> model (which validates its fields and may raise) are
  parameters: \<open>text\<close> and \<open>SearchResult\<close>. The loop over the items appends one
  \<^verbatim>\<open>SearchResult\<close> per item and stops at the first exception.
\<close>

fun search_items ::
  "('u \<Rightarrow> SearchSource \<Rightarrow> pyval \<Rightarrow> pyval \<Rightarrow> pyval \<Rightarrow> exn + 'sr) \<Rightarrow> 'u \<Rightarrow> pydict list \<Rightarrow>
   'sr list \<Rightarrow> exn + 'sr list" where
  "search_items SearchResult query_id [] search_results = Inr search_results"
| "search_items SearchResult query_id (item # items) search_results =
     (case SearchResult query_id DUCKDUCKGO
             (get item ''title'' (PStr '''')) (get item ''href'' (PStr ''''))
             (get item ''body'' (PStr ''''))
      of Inl e \<Rightarrow> Inl e
       | Inr r \<Rightarrow> search_items SearchResult query_id items (search_results @ [r]))"

definition search ::
  "(string \<Rightarrow> int \<Rightarrow> exn + pydict list) \<Rightarrow>
   ('u \<Rightarrow> SearchSource \<Rightarrow> pyval \<Rightarrow> pyval \<Rightarrow> pyval \<Rightarrow> exn + 'sr) \<Rightarrow>
   string \<Rightarrow> 'u \<Rightarrow> int \<Rightarrow> exn + 'sr list" where
  "search text SearchResult query query_id num_results =
     (case (case text query (min num_results 10) of
              Inl e \<Rightarrow> Inl e
            | Inr results \<Rightarrow> search_items SearchResult query_id results [])
      of Inl e \<Rightarrow> Inl (Exception (''DuckDuckGo Search error: '' @ str_exn e) (Some e))
       | Inr search_results \<Rightarrow> Inr search_results)"

definition search_with_keywords ::
  "(string \<Rightarrow> int \<Rightarrow> exn + pydict list) \<Rightarrow>
   ('u \<Rightarrow> SearchSource \<Rightarrow> pyval \<Rightarrow> pyval \<Rightarrow> pyval \<Rightarrow> exn + 'sr) \<Rightarrow>
   'u \<Rightarrow> string list \<Rightarrow> int \<Rightarrow> exn + 'sr list" where
  "search_with_keywords text SearchResult query_id keywords max_results =
     (let search_query = join '' '' keywords
      in search text SearchResult search_query query_id max_results)"



section \<open>agui/tools.py\<close>

subsection \<open>search\_google\<close>

text \<open>
  The \<^verbatim>\<open>SearchResult\<close> objects that \<^verbatim>\<open>GoogleSearchService.search\<close> returns, with the
  attributes that \<^verbatim>\<open>search_google\<close> reads (the class is declared in the \<^verbatim>\<open>models\<close>
  package): \<open>sr_url\<close> is \<^verbatim>\<open>str(r.url)\<close> and \<open>sr_source\<close> is the text that the
  expression on \<^verbatim>\<open>r.source\<close> gives.
\<close>

record SearchResult =
  sr_title :: string
  sr_url :: string
  sr_snippet :: string
  sr_source :: string
  sr_relevance_score :: real





subsection \<open>The text-generation service\<close>

text \<open>
  \<^verbatim>\<open>AzureOpenAIService\<close> is outside these sources; the tools use its two methods, which are
  the fields of this record. A call of \<open>chat_completion\<close> is one invocation of the
  text-generation capability; the tools below return, beside their result, the list of the
  invocations they made, in order.
\<close>

record message =
  role :: string
  content :: string

record 'r AzureOpenAIService =
  chat_completion :: "message list \<Rightarrow> real \<Rightarrow> exn + 'r"
  extract_text :: "'r \<Rightarrow> exn + string"

type_synonym llm_call = "message list \<times> real"

subsection \<open>create\_research\_plan\<close>

record search_step =
  step_description :: string
  step_keywords :: "string list"
  step_sources :: "string list"

record plan_dict =
  plan_query :: string
  plan_error :: "string option"
  plan_strategy :: "string option"
  plan_keywords :: "string list"
  plan_search_steps :: "search_step list"
  plan_sources :: "string list"

definition keyword_prompt :: "string \<Rightarrow> string" where
  "keyword_prompt query =
     ''Analyze this research question and generate 5-8 relevant search keywords:\<newline>\<newline>Question: ''
     @ query
     @ ''\<newline>\<newline>Return only the keywords, one per line, no numbering or bullets.''"

definition strategy_prompt :: "string \<Rightarrow> string list \<Rightarrow> string" where
  "strategy_prompt query keywords =
     ''Create a brief research strategy summary (2-3 sentences) for this question:\<newline>Question: ''
     @ query @ ''\<newline>Keywords: '' @ join '', '' keywords"

text \<open>
  \<^verbatim>\<open>[k.strip() for k in keywords_text.strip().split('\n') if k.strip()]\<close>
\<close>

definition parse_keywords :: "string \<Rightarrow> string list" where
  "parse_keywords keywords_text =
     map strip (filter (\<lambda>k. strip k \<noteq> []) (split CHR 0x0A (strip keywords_text)))"

text \<open>
  The search steps, lines 188 to 209. (The loop that fills \<^verbatim>\<open>source_enums\<close> only compares
  lower-cased strings and appends to a list that nothing reads; it is left out.)
\<close>

definition search_steps_of :: "string \<Rightarrow> string list \<Rightarrow> string list \<Rightarrow> search_step list" where
  "search_steps_of query keywords sources =
     [\<lparr>step_description = ''Search for main topic: '' @ query,
       step_keywords = take 3 keywords, step_sources = sources\<rparr>]
     @ (if length keywords > 3
        then [\<lparr>step_description = ''Search for specific aspects and details'',
                step_keywords = drop 3 keywords, step_sources = sources\<rparr>]
        else [])"

text \<open>The body of the \<^verbatim>\<open>try\<close>, with the invocations made.\<close>

definition plan_body ::
  "(exn + 'r AzureOpenAIService) \<Rightarrow> string \<Rightarrow> string list \<Rightarrow> (exn + plan_dict) \<times> llm_call list"
  where
  "plan_body get_openai_service query sources =
     (case get_openai_service of
        Inl e \<Rightarrow> (Inl e, [])
      | Inr service \<Rightarrow>
         (let messages = [\<lparr>role = ''user'', content = keyword_prompt query\<rparr>]
          in case chat_completion service messages 0.3 of
               Inl e \<Rightarrow> (Inl e, [(messages, 0.3)])
             | Inr keywords_response \<Rightarrow>
                (case extract_text service keywords_response of
                   Inl e \<Rightarrow> (Inl e, [(messages, 0.3)])
                 | Inr keywords_text \<Rightarrow>
                    (let keywords = parse_keywords keywords_text;
                         search_steps = search_steps_of query keywords sources;
                         messages2 = [\<lparr>role = ''user'',
                                        content = strategy_prompt query keywords\<rparr>]
                     in case chat_completion service messages2 0.5 of
                          Inl e \<Rightarrow> (Inl e, [(messages, 0.3), (messages2, 0.5)])
                        | Inr strategy_response \<Rightarrow>
                           (case extract_text service strategy_response of
                              Inl e \<Rightarrow> (Inl e, [(messages, 0.3), (messages2, 0.5)])
                            | Inr strategy \<Rightarrow>
                               (Inr \<lparr>plan_query = query, plan_error = None,
                                     plan_strategy = Some (strip strategy),
                                     plan_keywords = keywords,
                                     plan_search_steps = search_steps,
                                     plan_sources = sources\<rparr>,
                                [(messages, 0.3), (messages2, 0.5)]))))))"

text \<open>
  \<^verbatim>\<open>create_research_plan\<close>: the default of \<^verbatim>\<open>sources\<close>, then the \<^verbatim>\<open>try\<close> with its
  handler, which returns a dictionary.
\<close>

definition create_research_plan ::
  "(exn + 'r AzureOpenAIService) \<Rightarrow> string \<Rightarrow> string list option \<Rightarrow>
   (exn + plan_dict) \<times> llm_call list" where
  "create_research_plan get_openai_service query sources_arg =
     (let sources = (case sources_arg of None \<Rightarrow> [''google'', ''arxiv''] | Some s \<Rightarrow> s)
      in case plan_body get_openai_service query sources of
           (Inl e, calls) \<Rightarrow>
             (Inr \<lparr>plan_query = query, plan_error = Some (str_exn e), plan_strategy = None,
                   plan_keywords = [], plan_search_steps = [], plan_sources = sources\<rparr>,
              calls)
         | (Inr plan, calls) \<Rightarrow> (Inr plan, calls))"

subsection \<open>synthesize\_answer\<close>

record source_dict =
  source_index :: nat
  source_title :: pyval
  source_url :: pyval
  source_snippet :: pyval

record answer_dict =
  answer_query :: string
  answer_error :: "string option"
  answer_content :: string
  answer_sources :: "source_dict list"
  answer_sources_count :: "nat option"
  answer_confidence :: "real option"

definition synthesis_prompt :: "string \<Rightarrow> string \<Rightarrow> string" where
  "synthesis_prompt query context =
     ''Based on the following search results, provide a comprehensive answer to the research question.\<newline>Include citations using [n] format to reference the sources.\<newline>\<newline>Research Question: ''
     @ query @ ''\<newline>\<newline>Search Results:\<newline>'' @ context
     @ ''\<newline>\<newline>Provide a well-structured answer with:\<newline>1. A clear introduction\<newline>2. Main findings and details\<newline>3. A brief conclusion\<newline>4. Use [n] citations to reference sources\<newline>\<newline>Answer:''"

text \<open>One entry of \<^verbatim>\<open>context_parts\<close>: \<^verbatim>\<open>f"[{i}] {title}\n{snippet}"\<close>\<close>

definition context_part :: "nat \<Rightarrow> pyval \<Rightarrow> pyval \<Rightarrow> string" where
  "context_part i title snippet =
     ''['' @ str_nat i @ ''] '' @ format title @ ''\<newline>'' @ format snippet"

text \<open>
  The loop of lines 273 to 284 over the enumerated results, with the two lists it appends
  to. The slice of the snippet raises when the snippet is no string, and the loop ends there.
\<close>

fun collect_sources ::
  "(nat \<times> pydict) list \<Rightarrow> string list \<Rightarrow> source_dict list \<Rightarrow>
   exn + (string list \<times> source_dict list)" where
  "collect_sources [] context_parts sources = Inr (context_parts, sources)"
| "collect_sources ((i, result) # rest) context_parts sources =
     (let title = get result ''title'' (PStr ''Unknown'');
          snippet = get result ''snippet'' (PStr '''');
          url = get result ''url'' (PStr '''')
      in case slice200 snippet of
           Inl e \<Rightarrow> Inl e
         | Inr short \<Rightarrow>
            collect_sources rest
              (context_parts @ [context_part i title snippet])
              (sources @ [\<lparr>source_index = i, source_title = title, source_url = url,
                            source_snippet = short\<rparr>]))"

text \<open>The body of the \<^verbatim>\<open>try\<close>, with the invocations made.\<close>

definition synthesize_body ::
  "(exn + 'r AzureOpenAIService) \<Rightarrow> string \<Rightarrow> pydict list \<Rightarrow>
   (exn + answer_dict) \<times> llm_call list" where
  "synthesize_body get_openai_service query search_results =
     (case get_openai_service of
        Inl e \<Rightarrow> (Inl e, [])
      | Inr service \<Rightarrow>
         (case collect_sources (enumerate_from 1 (take 10 search_results)) [] [] of
            Inl e \<Rightarrow> (Inl e, [])
          | Inr (context_parts, sources) \<Rightarrow>
             (let context = join ''\<newline>\<newline>'' context_parts;
                  messages = [\<lparr>role = ''user'', content = synthesis_prompt query context\<rparr>]
              in case chat_completion service messages 0.5 of
                   Inl e \<Rightarrow> (Inl e, [(messages, 0.5)])
                 | Inr answer_response \<Rightarrow>
                    (case extract_text service answer_response of
                       Inl e \<Rightarrow> (Inl e, [(messages, 0.5)])
                     | Inr answer_text \<Rightarrow>
                        (Inr \<lparr>answer_query = query, answer_error = None,
                              answer_content = strip answer_text,
                              answer_sources = sources,
                              answer_sources_count = Some (length sources),
                              answer_confidence = Some 0.85\<rparr>,
                         [(messages, 0.5)])))))"

text \<open>
  \<^verbatim>\<open>synthesize_answer\<close>: \<^verbatim>\<open>None\<close> becomes the empty list, the empty list returns at
  once, and otherwise the \<^verbatim>\<open>try\<close> runs, with its handler, which returns a dictionary.
\<close>

definition synthesize_answer ::
  "(exn + 'r AzureOpenAIService) \<Rightarrow> string \<Rightarrow> pydict list option \<Rightarrow>
   (exn + answer_dict) \<times> llm_call list" where
  "synthesize_answer get_openai_service query search_results_arg =
     (let search_results = (case search_results_arg of None \<Rightarrow> [] | Some rs \<Rightarrow> rs)
      in if search_results = []
         then (Inr \<lparr>answer_query = query, answer_error = Some ''No search results provided'',
                    answer_content =
                      ''I couldn't find relevant information to answer your question.'',
                    answer_sources = [], answer_sources_count = None,
                    answer_confidence = None\<rparr>, [])
         else (case synthesize_body get_openai_service query search_results of
                 (Inl e, calls) \<Rightarrow>
                   (Inr \<lparr>answer_query = query, answer_error = Some (str_exn e),
                         answer_content = ''An error occurred while synthesizing the answer.'',
                         answer_sources = [], answer_sources_count = None,
                         answer_confidence = None\<rparr>, calls)
               | (Inr answer, calls) \<Rightarrow> (Inr answer, calls)))"


section \<open>api/routes.py\<close>

text \<open>
  \<^verbatim>\<open>ResearchRequest\<close> and the constraints its two \<^verbatim>\<open>Field\<close> declarations give: the content
  has at least 1 and at most 2000 characters, the list of search sources has at least 1
  entry. The framework builds the request from the body before it calls the handler, and
  answers with the list of violated constraints (field and kind) when there is one.
\<close>

record ResearchRequest =
  request_content :: string
  request_search_sources :: "SearchSource list"

definition validate_ResearchRequest ::
  "string \<Rightarrow> SearchSource list \<Rightarrow> (string \<times> string) list + ResearchRequest" where
  "validate_ResearchRequest body_content body_search_sources =
     (let errors =
            (if length body_content < 1 then [(''content'', ''string_too_short'')]
             else if length body_content > 2000 then [(''content'', ''string_too_long'')]
             else [])
            @ (if length body_search_sources < 1 then [(''search_sources'', ''too_short'')]
               else [])
      in if errors = []
         then Inr \<lparr>request_content = body_content,
                   request_search_sources = body_search_sources\<rparr>
         else Inl errors)"

datatype http_error =
    RequestValidationError "(string \<times> string) list"
  | HTTPException nat string

text \<open>
  \<^verbatim>\<open>submit_research\<close>. \<^verbatim>\<open>ResearchWorkflow\<close> is outside these sources: \<open>workflow\<close> is what
  its constructor gives, an exception or the \<^verbatim>\<open>execute_query\<close> method (taking the content
  and the search sources as strings; the callback is \<^verbatim>\<open>None\<close>). \<open>str_source\<close> is
  \<^verbatim>\<open>str\<close> on a \<^verbatim>\<open>SearchSource\<close>. The lines that take the workflow's result apart and build
  the response are the parameter \<open>assemble\<close>, which returns the response, raises an
  \<^verbatim>\<open>HTTPException\<close> (passed on by the handler) or raises another exception (answered with
  status 500, as every other exception of the handler). The second component of the result
  lists the calls of \<^verbatim>\<open>execute_query\<close>, the start of the workflow and of its planning stage.
\<close>

definition submit_research ::
  "(exn + (string \<Rightarrow> string list \<Rightarrow> exn + 'res)) \<Rightarrow> (SearchSource \<Rightarrow> string) \<Rightarrow>
   (ResearchRequest \<Rightarrow> 'res \<Rightarrow> (http_error + exn) + 'resp) \<Rightarrow> ResearchRequest \<Rightarrow>
   (http_error + 'resp) \<times> (string \<times> string list) list" where
  "submit_research workflow str_source assemble request =
     (case workflow of
        Inl e \<Rightarrow> (Inl (HTTPException 500 (''Research failed: '' @ str_exn e)), [])
      | Inr execute_query \<Rightarrow>
         (let query_content = request_content request;
              search_sources = map str_source (request_search_sources request)
          in case execute_query query_content search_sources of
               Inl e \<Rightarrow>
                 (Inl (HTTPException 500 (''Research failed: '' @ str_exn e)),
                  [(query_content, search_sources)])
             | Inr result \<Rightarrow>
                (case assemble request result of
                   Inl (Inl h) \<Rightarrow> (Inl h, [(query_content, search_sources)])
                 | Inl (Inr e) \<Rightarrow>
                     (Inl (HTTPException 500 (''Research failed: '' @ str_exn e)),
                      [(query_content, search_sources)])
                 | Inr response \<Rightarrow> (Inr response, [(query_content, search_sources)]))))"

text \<open>The route \<^verbatim>\<open>POST /research\<close>: validation of the body, then the handler.\<close>

definition post_research ::
  "(exn + (string \<Rightarrow> string list \<Rightarrow> exn + 'res)) \<Rightarrow> (SearchSource \<Rightarrow> string) \<Rightarrow>
   (ResearchRequest \<Rightarrow> 'res \<Rightarrow> (http_error + exn) + 'resp) \<Rightarrow> string \<Rightarrow>
   SearchSource list \<Rightarrow> (http_error + 'resp) \<times> (string \<times> string list) list" where
  "post_research workflow str_source assemble body_content body_search_sources =
     (case validate_ResearchRequest body_content body_search_sources of
        Inl errors \<Rightarrow> (Inl (RequestValidationError errors), [])
      | Inr request \<Rightarrow> submit_research workflow str_source assemble request)"


section \<open>Notions used in the statements\<close>

text \<open>
  The entry of \<^verbatim>\<open>sources\<close> and the entry of \<^verbatim>\<open>context_parts\<close> that one pass of the loop
  of \<^verbatim>\<open>synthesize_answer\<close> appends for the \<open>i\<close>-th result, when its snippet is a string.
\<close>

definition source_entry :: "nat \<Rightarrow> pydict \<Rightarrow> source_dict" where
  "source_entry i result =
     \<lparr>source_index = i, source_title = get result ''title'' (PStr ''Unknown''),
      source_url = get result ''url'' (PStr ''''),
      source_snippet =
        (case get result ''snippet'' (PStr '''') of PStr s \<Rightarrow> PStr (take 200 s) | v \<Rightarrow> v)\<rparr>"

definition context_entry :: "nat \<Rightarrow> pydict \<Rightarrow> string" where
  "context_entry i result =
     context_part i (get result ''title'' (PStr ''Unknown''))
       (get result ''snippet'' (PStr ''''))"

text \<open>
  Example inputs: a text-generation service that answers every request (with keywords at
  temperature 0.3), one that fails every request, one that fails the request for the
  strategy only, and two search results, the second one without any key.
\<close>

definition answering_service :: "string AzureOpenAIService" where
  "answering_service =
     \<lparr>chat_completion =
        (\<lambda>messages temperature.
           Inr (if temperature = 0.3 then ''solid state\<newline> recycling ''
                else '' Batteries are recycled [1]. '')),
      extract_text = (\<lambda>response. Inr response)\<rparr>"

definition failing_service :: "string AzureOpenAIService" where
  "failing_service =
     \<lparr>chat_completion = (\<lambda>messages temperature. Inl (Exception ''quota exceeded'' None)),
      extract_text = (\<lambda>response. Inr response)\<rparr>"

definition strategy_failing_service :: "string AzureOpenAIService" where
  "strategy_failing_service =
     \<lparr>chat_completion =
        (\<lambda>messages temperature.
           if temperature = 0.5 then Inl (Exception ''quota exceeded'' None)
           else Inr ''anode\<newline>cathode\<newline>lithium\<newline>cobalt''),
      extract_text = (\<lambda>response. Inr response)\<rparr>"

definition example_results :: "pydict list" where
  "example_results =
     [[''title'' \<mapsto> PStr ''Recycling'', ''url'' \<mapsto> PStr ''http://x.com/a'',
       ''snippet'' \<mapsto> PStr ''Cells are shredded.''],
      Map.empty]"

definition example_answer :: answer_dict where
  "example_answer =
     \<lparr>answer_query = ''battery recycling'', answer_error = None,
      answer_content = ''Batteries are recycled [1].'',
      answer_sources =
        [\<lparr>source_index = 1, source_title = PStr ''Recycling'',
          source_url = PStr ''http://x.com/a'', source_snippet = PStr ''Cells are shredded.''\<rparr>,
         \<lparr>source_index = 2, source_title = PStr ''Unknown'', source_url = PStr '''',
          source_snippet = PStr ''''\<rparr>],
      answer_sources_count = Some 2, answer_confidence = Some 0.85\<rparr>"





definition echo_workflow :: "exn + (string \<Rightarrow> string list \<Rightarrow> exn + string \<times> string list)" where
  "echo_workflow = Inr (\<lambda>query_content search_sources. Inr (query_content, search_sources))"

fun source_name :: "SearchSource \<Rightarrow> string" where
  "source_name GOOGLE = ''google''"
| "source_name ARXIV = ''arxiv''"
| "source_name DUCKDUCKGO = ''duckduckgo''"

definition echo_assemble ::
  "ResearchRequest \<Rightarrow> string \<times> string list \<Rightarrow> (http_error + exn) + string \<times> string list" where
  "echo_assemble request result = Inr result"

text \<open>
  A text-generation service that answers every request, while reading the text out of the
  answer to the request for the strategy fails.
\<close>

definition extraction_failing_service :: "string AzureOpenAIService" where
  "extraction_failing_service =
     \<lparr>chat_completion =
        (\<lambda>messages temperature.
           Inr (if temperature = 0.3 then ''anode\<newline>cathode'' else ''strategy'')),
      extract_text =
        (\<lambda>response. if response = ''strategy'' then Inl (Exception ''no choices'' None)
                     else Inr response)\<rparr>"


section \<open>The loop of synthesize\_answer\<close>

lemma length_enumerate_from: "length (enumerate_from i xs) = length xs"
  by (induction xs arbitrary: i) simp_all

lemma nth_enumerate_from: "k < length xs \<Longrightarrow> enumerate_from i xs ! k = (i + k, xs ! k)"
proof (induction xs arbitrary: i k)
  case Nil
  then show ?case by simp
next
  case (Cons x xs)
  then show ?case by (cases k) simp_all
qed

lemma map_fst_enumerate_from: "map fst (enumerate_from i xs) = [i..<i + length xs]"
proof (induction xs arbitrary: i)
  case Nil
  then show ?case by simp
next
  case (Cons x xs)
  have "[i..<i + Suc (length xs)] = i # [Suc i..<i + Suc (length xs)]"
    by (rule upt_conv_Cons) simp
  with Cons show ?case by simp
qed

lemma slice200_Inr: "slice200 v = Inr w \<Longrightarrow> \<exists>s. v = PStr s \<and> w = PStr (take 200 s)"
  by (cases v) auto

lemma collect_sources_Inr:
  "collect_sources xs cp ss = Inr (cp', ss') \<Longrightarrow>
     cp' = cp @ map (\<lambda>(i, r). context_entry i r) xs
     \<and> ss' = ss @ map (\<lambda>(i, r). source_entry i r) xs
     \<and> (\<forall>(i, r) \<in> set xs. \<exists>s. get r ''snippet'' (PStr '''') = PStr s)"
proof (induction xs arbitrary: cp ss)
  case Nil
  then show ?case by simp
next
  case (Cons x xs)
  obtain i r where x: "x = (i, r)" by (cases x)
  from Cons.prems x obtain short where
    sl: "slice200 (get r ''snippet'' (PStr '''')) = Inr short" and
    rec: "collect_sources xs
            (cp @ [context_part i (get r ''title'' (PStr ''Unknown''))
                     (get r ''snippet'' (PStr ''''))])
            (ss @ [\<lparr>source_index = i, source_title = get r ''title'' (PStr ''Unknown''),
                    source_url = get r ''url'' (PStr ''''), source_snippet = short\<rparr>])
          = Inr (cp', ss')"
    by (auto simp: Let_def split: sum.splits)
  from slice200_Inr [OF sl] obtain s where
    s: "get r ''snippet'' (PStr '''') = PStr s" "short = PStr (take 200 s)" by blast
  from Cons.IH [OF rec] s x show ?case
    by (simp add: source_entry_def context_entry_def)
qed

text \<open>
  What a call of \<open>synthesize_answer\<close> that returns a result without an error did: the loop
  went through, one invocation was made, with the prompt built from the loop's context
  parts, and it answered.
\<close>

lemma synthesize_answer_success:
  assumes "fst (synthesize_answer get_svc q (Some rs)) = Inr a"
      and "answer_error a = None"
  shows "\<exists>cps. collect_sources (enumerate_from 1 (take 10 rs)) [] [] = Inr (cps, answer_sources a)
           \<and> snd (synthesize_answer get_svc q (Some rs)) =
               [([\<lparr>role = ''user'',
                    content = synthesis_prompt q (join ''\<newline>\<newline>'' cps)\<rparr>], 0.5)]
           \<and> answer_confidence a = Some 0.85
           \<and> answer_sources_count a = Some (length (answer_sources a))"
  using assms
  by (auto simp: synthesize_answer_def synthesize_body_def Let_def
           split: if_splits sum.splits prod.splits)

lemma synthesize_answer_sources:
  assumes "fst (synthesize_answer get_svc q (Some rs)) = Inr a"
      and "answer_error a = None"
  shows "answer_sources a = map (\<lambda>(i, r). source_entry i r) (enumerate_from 1 (take 10 rs))"
    and "\<forall>(i, r) \<in> set (enumerate_from 1 (take 10 rs)).
           \<exists>s. get r ''snippet'' (PStr '''') = PStr s"
    and "snd (synthesize_answer get_svc q (Some rs)) =
           [([\<lparr>role = ''user'',
                content = synthesis_prompt q
                  (join ''\<newline>\<newline>''
                     (map (\<lambda>(i, r). context_entry i r) (enumerate_from 1 (take 10 rs))))\<rparr>],
             0.5)]"
proof -
  from synthesize_answer_success [OF assms] obtain cps where
    c: "collect_sources (enumerate_from 1 (take 10 rs)) [] [] = Inr (cps, answer_sources a)"
    and l: "snd (synthesize_answer get_svc q (Some rs)) =
               [([\<lparr>role = ''user'',
                    content = synthesis_prompt q (join ''\<newline>\<newline>'' cps)\<rparr>], 0.5)]"
    by blast
  from collect_sources_Inr [OF c]
  show "answer_sources a = map (\<lambda>(i, r). source_entry i r) (enumerate_from 1 (take 10 rs))"
    and "\<forall>(i, r) \<in> set (enumerate_from 1 (take 10 rs)).
           \<exists>s. get r ''snippet'' (PStr '''') = PStr s"
    by simp_all
  from collect_sources_Inr [OF c] l
  show "snd (synthesize_answer get_svc q (Some rs)) =
           [([\<lparr>role = ''user'',
                content = synthesis_prompt q
                  (join ''\<newline>\<newline>''
                     (map (\<lambda>(i, r). context_entry i r) (enumerate_from 1 (take 10 rs))))\<rparr>],
             0.5)]"
    by simp
qed

lemma example_answer_eval:
  "fst (synthesize_answer (Inr answering_service) ''battery recycling'' (Some example_results))
     = Inr example_answer"
  by (simp add: synthesize_answer_def synthesize_body_def answering_service_def
        example_results_def example_answer_def get_def Let_def strip_def isspace_def)

lemma sublist_join: "x \<in> set xs \<Longrightarrow> sublist x (join sep xs)"
proof (induction sep xs rule: join.induct)
  case (1 sep)
  then show ?case by simp
next
  case (2 sep y)
  then show ?case by simp
next
  case (3 sep y z zs)
  show ?case
  proof (cases "x = y")
    case True
    then show ?thesis by simp
  next
    case False
    with 3 have "sublist x (join sep (z # zs))" by simp
    then have "sublist x ((y @ sep) @ join sep (z # zs))"
      by (rule sublist_order.order.trans) (rule sublist_append_leftI)
    then show ?thesis by simp
  qed
qed

lemma sublist_prepend: "sublist xs ys \<Longrightarrow> sublist xs (zs @ ys)"
proof -
  assume "sublist xs ys"
  then obtain ps ss where "ys = ps @ xs @ ss" by (auto simp: sublist_def)
  then have "zs @ ys = (zs @ ps) @ xs @ ss" by simp
  then show ?thesis unfolding sublist_def by blast
qed

lemma sublist_synthesis_prompt: "sublist context (synthesis_prompt q context)"
  unfolding synthesis_prompt_def
  by (rule sublist_prepend, rule sublist_prepend, rule sublist_prepend,
      rule sublist_append_rightI)


section \<open>Claims on synthesize\_answer\<close>

text \<open>
  C1. When \<open>synthesize_answer\<close> is called with a non-empty list of search results and
  returns a result without an error, its sources are built from the first 10 search results
  in their order: there are \<open>min 10 (length rs)\<close> of them, the \<open>i\<close>-th one (counted from
  1) carries the index \<open>i\<close> and the title and the url of the \<open>i\<close>-th search result, and
  the indices are exactly 1, 2, ..., \<open>min 10 (length rs)\<close>.
\<close>

theorem synthesize_answer_source_indices:
  assumes "fst (synthesize_answer get_svc q (Some rs)) = Inr a"
      and "answer_error a = None"
      and "rs \<noteq> []"
  shows "length (answer_sources a) = min 10 (length rs)
       \<and> map source_index (answer_sources a) = [1..<Suc (min 10 (length rs))]
       \<and> (\<forall>i < min 10 (length rs).
            source_index (answer_sources a ! i) = Suc i
            \<and> source_title (answer_sources a ! i) = get (rs ! i) ''title'' (PStr ''Unknown'')
            \<and> source_url (answer_sources a ! i) = get (rs ! i) ''url'' (PStr ''''))"
proof -
  let ?xs = "enumerate_from 1 (take 10 rs)"
  have src: "answer_sources a = map (\<lambda>(i, r). source_entry i r) ?xs"
    by (rule synthesize_answer_sources(1) [OF assms(1,2)])
  have len: "length (answer_sources a) = min 10 (length rs)"
    by (simp add: src length_enumerate_from min.commute)
  have "map source_index (answer_sources a) = map fst ?xs"
    by (simp add: src source_entry_def case_prod_beta)
  also have "\<dots> = [1..<1 + length (take 10 rs)]"
    by (rule map_fst_enumerate_from)
  also have "\<dots> = [1..<Suc (min 10 (length rs))]"
    by (simp add: min.commute)
  finally have idx: "map source_index (answer_sources a) = [1..<Suc (min 10 (length rs))]" .
  have nth: "source_index (answer_sources a ! i) = Suc i
       \<and> source_title (answer_sources a ! i) = get (rs ! i) ''title'' (PStr ''Unknown'')
       \<and> source_url (answer_sources a ! i) = get (rs ! i) ''url'' (PStr '''')"
    if "i < min 10 (length rs)" for i
  proof -
    from that have i: "i < length (take 10 rs)" by simp
    then have "?xs ! i = (1 + i, take 10 rs ! i)" by (rule nth_enumerate_from)
    with that have "?xs ! i = (Suc i, rs ! i)" by simp
    moreover from i have "answer_sources a ! i = (\<lambda>(i, r). source_entry i r) (?xs ! i)"
      by (simp add: src length_enumerate_from)
    ultimately show ?thesis by (simp add: source_entry_def)
  qed
  from len idx nth show ?thesis by blast
qed

theorem synthesize_answer_source_indices_witness:
  "fst (synthesize_answer (Inr answering_service) ''battery recycling'' (Some example_results))
     = Inr example_answer
   \<and> answer_error example_answer = None
   \<and> example_results \<noteq> []
   \<and> length (answer_sources example_answer) = 2
   \<and> map source_index (answer_sources example_answer) = [1, 2]"
proof -
  have e: "answer_error example_answer = None" by (simp add: example_answer_def)
  have n: "example_results \<noteq> []" by (simp add: example_results_def)
  have l: "min 10 (length example_results) = 2" by (simp add: example_results_def)
  from synthesize_answer_source_indices [OF example_answer_eval e n] l
  have "length (answer_sources example_answer) = 2"
    and "map source_index (answer_sources example_answer) = [1..<Suc 2]"
    by simp_all
  moreover have "[1..<Suc 2] = [1, 2]" by (simp add: upt_rec)
  ultimately show ?thesis using example_answer_eval e n by simp
qed

text \<open>
  C3. For every question, \<open>synthesize_answer\<close> with no list of search results, or with
  the empty list, returns (it does not raise) the same fixed result: the content
  ``I couldn't find relevant information to answer your question.'', no sources, and the
  note ``No search results provided''; and it makes no invocation of the text-generation
  service, whatever that service is.
\<close>

theorem synthesize_answer_no_results:
  "synthesize_answer get_svc q None =
     (Inr \<lparr>answer_query = q, answer_error = Some ''No search results provided'',
           answer_content = ''I couldn't find relevant information to answer your question.'',
           answer_sources = [], answer_sources_count = None, answer_confidence = None\<rparr>, [])
   \<and> synthesize_answer get_svc q (Some []) = synthesize_answer get_svc q None
   \<and> answer_sources (projr (fst (synthesize_answer get_svc q None))) = []
   \<and> snd (synthesize_answer get_svc q None) = []"
  by (simp add: synthesize_answer_def)

text \<open>
  C9. When \<open>synthesize_answer\<close> is called with a non-empty list of search results and
  returns a result without an error, the confidence of the result is the constant 0.85,
  which lies between 0 and 1, whatever the question, the search results and the generated
  text are.
\<close>

theorem synthesize_answer_confidence:
  assumes "fst (synthesize_answer get_svc q (Some rs)) = Inr a"
      and "answer_error a = None"
      and "rs \<noteq> []"
  shows "answer_confidence a = Some 0.85
       \<and> 0 \<le> the (answer_confidence a) \<and> the (answer_confidence a) \<le> 1"
proof -
  from synthesize_answer_success [OF assms(1,2)]
  have "answer_confidence a = Some 0.85" by blast
  then show ?thesis by simp
qed

theorem synthesize_answer_confidence_witness:
  "fst (synthesize_answer (Inr answering_service) ''battery recycling'' (Some example_results))
     = Inr example_answer
   \<and> answer_error example_answer = None
   \<and> example_results \<noteq> []
   \<and> answer_confidence example_answer = Some 0.85
   \<and> 0 \<le> the (answer_confidence example_answer)
   \<and> the (answer_confidence example_answer) \<le> 1"
proof -
  have e: "answer_error example_answer = None" by (simp add: example_answer_def)
  have n: "example_results \<noteq> []" by (simp add: example_results_def)
  from synthesize_answer_confidence [OF example_answer_eval e n] example_answer_eval e n
  show ?thesis by blast
qed

lemma synthesize_answer_call:
  assumes "fst (synthesize_answer get_svc q (Some rs)) = Inr a"
      and "answer_error a = None"
  shows "\<exists>svc cps response answer_text.
           get_svc = Inr svc
           \<and> collect_sources (enumerate_from 1 (take 10 rs)) [] [] = Inr (cps, answer_sources a)
           \<and> chat_completion svc
               [\<lparr>role = ''user'',
                 content = synthesis_prompt q (join ''\<newline>\<newline>'' cps)\<rparr>] 0.5 = Inr response
           \<and> extract_text svc response = Inr answer_text
           \<and> answer_content a = strip answer_text"
  using assms
  by (auto simp: synthesize_answer_def synthesize_body_def Let_def
           split: if_splits sum.splits prod.splits)

text \<open>
  C10. When \<open>synthesize_answer\<close> is called with a non-empty list of search results and
  returns a result without an error, then the text-generation service was called, by
  \<open>chat_completion\<close> at temperature 0.5, with one user message whose content is a prompt
  \<open>p\<close>; the service answered that call, and the content of the result is the stripped
  text read from that answer; \<open>p\<close> is also the one entry of the invocation log. For each
  of the first 10 search results the snippet is a string \<open>s\<close> (the empty one when the
  key is absent), the matching source carries the first 200 characters of \<open>s\<close>, so at
  most 200 characters, and the prompt \<open>p\<close> passed to the service contains the context
  part of that result, which ends with the whole of \<open>s\<close>.
\<close>

theorem synthesize_answer_snippets:
  assumes "fst (synthesize_answer get_svc q (Some rs)) = Inr a"
      and "answer_error a = None"
      and "rs \<noteq> []"
  shows "\<exists>svc p response answer_text.
           get_svc = Inr svc
           \<and> chat_completion svc [\<lparr>role = ''user'', content = p\<rparr>] 0.5 = Inr response
           \<and> extract_text svc response = Inr answer_text
           \<and> answer_content a = strip answer_text
           \<and> snd (synthesize_answer get_svc q (Some rs)) =
               [([\<lparr>role = ''user'', content = p\<rparr>], 0.5)]
           \<and> (\<forall>i < min 10 (length rs).
                \<exists>s. get (rs ! i) ''snippet'' (PStr '''') = PStr s
                  \<and> source_snippet (answer_sources a ! i) = PStr (take 200 s)
                  \<and> length (take 200 s) \<le> 200
                  \<and> sublist (context_part (Suc i) (get (rs ! i) ''title'' (PStr ''Unknown''))
                               (PStr s)) p
                  \<and> suffix s (context_part (Suc i) (get (rs ! i) ''title'' (PStr ''Unknown''))
                               (PStr s))
                  \<and> sublist s p)"
proof -
  let ?xs = "enumerate_from 1 (take 10 rs)"
  let ?cps = "map (\<lambda>(i, r). context_entry i r) ?xs"
  let ?p = "synthesis_prompt q (join ''\<newline>\<newline>'' ?cps)"
  note facts = synthesize_answer_sources [OF assms(1,2)]
  from synthesize_answer_call [OF assms(1,2)] obtain svc cps response answer_text where
    svc: "get_svc = Inr svc"
    and col: "collect_sources ?xs [] [] = Inr (cps, answer_sources a)"
    and call: "chat_completion svc
                 [\<lparr>role = ''user'',
                   content = synthesis_prompt q (join ''\<newline>\<newline>'' cps)\<rparr>] 0.5 = Inr response"
    and ext: "extract_text svc response = Inr answer_text"
    and con: "answer_content a = strip answer_text"
    by blast
  from collect_sources_Inr [OF col] have "cps = ?cps" by simp
  with call have call': "chat_completion svc [\<lparr>role = ''user'', content = ?p\<rparr>] 0.5 = Inr response"
    by simp
  have each: "\<exists>s. get (rs ! i) ''snippet'' (PStr '''') = PStr s
                  \<and> source_snippet (answer_sources a ! i) = PStr (take 200 s)
                  \<and> length (take 200 s) \<le> 200
                  \<and> sublist (context_part (Suc i) (get (rs ! i) ''title'' (PStr ''Unknown''))
                               (PStr s)) ?p
                  \<and> suffix s (context_part (Suc i) (get (rs ! i) ''title'' (PStr ''Unknown''))
                               (PStr s))
                  \<and> sublist s ?p"
    if lt: "i < min 10 (length rs)" for i
  proof -
    from lt have i: "i < length (take 10 rs)" by simp
    then have "?xs ! i = (1 + i, take 10 rs ! i)" by (rule nth_enumerate_from)
    with lt have nth: "?xs ! i = (Suc i, rs ! i)" by simp
    from i have mem: "?xs ! i \<in> set ?xs" by (simp add: length_enumerate_from)
    with facts(2) nth obtain s where s: "get (rs ! i) ''snippet'' (PStr '''') = PStr s"
      by fastforce
    from i have "answer_sources a ! i = (\<lambda>(i, r). source_entry i r) (?xs ! i)"
      by (simp add: facts(1) length_enumerate_from)
    with nth s have snip: "source_snippet (answer_sources a ! i) = PStr (take 200 s)"
      by (simp add: source_entry_def)
    let ?part = "context_part (Suc i) (get (rs ! i) ''title'' (PStr ''Unknown'')) (PStr s)"
    from i have "?cps ! i = (\<lambda>(i, r). context_entry i r) (?xs ! i)"
      by (simp add: length_enumerate_from)
    with nth s have "?cps ! i = ?part" by (simp add: context_entry_def)
    moreover from i have "?cps ! i \<in> set ?cps"
      by (intro nth_mem) (simp add: length_enumerate_from)
    ultimately have "?part \<in> set ?cps" by simp
    then have "sublist ?part (join ''\<newline>\<newline>'' ?cps)" by (rule sublist_join)
    then have inp: "sublist ?part ?p"
      by (rule sublist_order.order.trans) (rule sublist_synthesis_prompt)
    have suf: "suffix s ?part"
      unfolding context_part_def by (simp add: suffix_def)
    then have "sublist s ?part" by (rule suffix_imp_sublist)
    then have "sublist s ?p" using inp by (rule sublist_order.order.trans)
    with s snip inp suf show ?thesis by (intro exI [of _ s]) simp
  qed
  from svc call' ext con facts(3) each show ?thesis
    by (intro exI [of _ svc] exI [of _ ?p] exI [of _ response] exI [of _ answer_text]) blast
qed

theorem synthesize_answer_snippets_witness:
  "fst (synthesize_answer (Inr answering_service) ''battery recycling'' (Some example_results))
     = Inr example_answer
   \<and> answer_error example_answer = None
   \<and> example_results \<noteq> []
   \<and> (0::nat) < min 10 (length example_results)
   \<and> (\<exists>p response.
          chat_completion answering_service [\<lparr>role = ''user'', content = p\<rparr>] 0.5
            = Inr response
          \<and> answer_content example_answer = strip response
          \<and> source_snippet (answer_sources example_answer ! 0) = PStr ''Cells are shredded.''
          \<and> snd (synthesize_answer (Inr answering_service) ''battery recycling''
                   (Some example_results)) = [([\<lparr>role = ''user'', content = p\<rparr>], 0.5)]
          \<and> sublist ''Cells are shredded.'' p)"
proof -
  have e: "answer_error example_answer = None" by (simp add: example_answer_def)
  have n: "example_results \<noteq> []" by (simp add: example_results_def)
  have l: "(0::nat) < min 10 (length example_results)" by (simp add: example_results_def)
  have g: "get (example_results ! 0) ''snippet'' (PStr '''') = PStr ''Cells are shredded.''"
    by (simp add: example_results_def get_def)
  from synthesize_answer_snippets [OF example_answer_eval e n]
  obtain svc p response answer_text where
    svc: "Inr answering_service = Inr svc"
    and call: "chat_completion svc [\<lparr>role = ''user'', content = p\<rparr>] 0.5 = Inr response"
    and ext: "extract_text svc response = Inr answer_text"
    and con: "answer_content example_answer = strip answer_text"
    and log: "snd (synthesize_answer (Inr answering_service) ''battery recycling''
                (Some example_results)) = [([\<lparr>role = ''user'', content = p\<rparr>], 0.5)]"
    and each: "\<forall>i < min 10 (length example_results).
                \<exists>s. get (example_results ! i) ''snippet'' (PStr '''') = PStr s
                  \<and> source_snippet (answer_sources example_answer ! i) = PStr (take 200 s)
                  \<and> length (take 200 s) \<le> 200
                  \<and> sublist (context_part (Suc i)
                               (get (example_results ! i) ''title'' (PStr ''Unknown''))
                               (PStr s)) p
                  \<and> suffix s (context_part (Suc i)
                               (get (example_results ! i) ''title'' (PStr ''Unknown''))
                               (PStr s))
                  \<and> sublist s p"
    by blast
  from svc have sv: "svc = answering_service" by simp
  from ext have "answer_text = response" by (simp add: sv answering_service_def)
  with con have con': "answer_content example_answer = strip response" by simp
  from each l obtain s where
    "get (example_results ! 0) ''snippet'' (PStr '''') = PStr s"
    "source_snippet (answer_sources example_answer ! 0) = PStr (take 200 s)"
    "sublist s p"
    by blast
  with g have
    "source_snippet (answer_sources example_answer ! 0) = PStr ''Cells are shredded.''"
    "sublist ''Cells are shredded.'' p"
    by simp_all
  with call [unfolded sv] con' log
  have "\<exists>p response.
          chat_completion answering_service [\<lparr>role = ''user'', content = p\<rparr>] 0.5
            = Inr response
          \<and> answer_content example_answer = strip response
          \<and> source_snippet (answer_sources example_answer ! 0) = PStr ''Cells are shredded.''
          \<and> snd (synthesize_answer (Inr answering_service) ''battery recycling''
                   (Some example_results)) = [([\<lparr>role = ''user'', content = p\<rparr>], 0.5)]
          \<and> sublist ''Cells are shredded.'' p"
    by blast
  with example_answer_eval e n l show ?thesis by (intro conjI)
qed


section \<open>Claims on create\_research\_plan\<close>






section \<open>Claims on failures\<close>

lemma synthesize_body_failure:
  assumes "synthesize_body (Inr svc) q rs = (res, [(msgs, t)])"
      and "chat_completion svc msgs t = Inl e
           \<or> (\<exists>response. chat_completion svc msgs t = Inr response
                 \<and> extract_text svc response = Inl e)"
  shows "res = Inl e"
proof (cases "collect_sources (enumerate_from 1 (take 10 rs)) [] []")
  case (Inl x)
  with assms(1) show ?thesis by (simp add: synthesize_body_def)
next
  case (Inr p)
  obtain cps srcs where p: "p = (cps, srcs)" by (cases p)
  define m where
    "m = [\<lparr>role = ''user'', content = synthesis_prompt q (join ''\<newline>\<newline>'' cps)\<rparr>]"
  define T where "T = (0.5::real)"
  define ok where
    "ok = (\<lambda>answer_text. \<lparr>answer_query = q, answer_error = None,
             answer_content = strip answer_text, answer_sources = srcs,
             answer_sources_count = Some (length srcs), answer_confidence = Some 0.85\<rparr>)"
  have body: "synthesize_body (Inr svc) q rs =
      (case chat_completion svc m T of
         Inl e \<Rightarrow> (Inl e, [(m, T)])
       | Inr answer_response \<Rightarrow>
          (case extract_text svc answer_response of
             Inl e \<Rightarrow> (Inl e, [(m, T)])
           | Inr answer_text \<Rightarrow> (Inr (ok answer_text), [(m, T)])))"
    unfolding synthesize_body_def Inr p m_def T_def ok_def Let_def by simp
  then have "snd (synthesize_body (Inr svc) q rs) = [(m, T)]"
    by (simp split: sum.splits)
  with assms(1) have mt: "msgs = m" "t = T" by simp_all
  from assms body show ?thesis unfolding mt by (auto split: sum.splits)
qed

text \<open>
  C4, as stated, fails: when the text-generation service fails, \<open>synthesize_answer\<close> does
  not fail. With the service that fails every request it returns a dictionary, and the
  content of that dictionary is a fixed placeholder text.
\<close>

theorem synthesize_answer_failure_counterexample:
  "chat_completion failing_service
     (fst (hd (snd (synthesize_answer (Inr failing_service) ''battery recycling''
                      (Some example_results)))))
     0.5 = Inl (Exception ''quota exceeded'' None)
   \<and> fst (synthesize_answer (Inr failing_service) ''battery recycling'' (Some example_results))
      = Inr \<lparr>answer_query = ''battery recycling'', answer_error = Some ''quota exceeded'',
             answer_content = ''An error occurred while synthesizing the answer.'',
             answer_sources = [], answer_sources_count = None, answer_confidence = None\<rparr>
   \<and> \<not> isl (fst (synthesize_answer (Inr failing_service) ''battery recycling''
                    (Some example_results)))"
  by (simp add: synthesize_answer_def synthesize_body_def failing_service_def
        example_results_def get_def Let_def)

text \<open>
  C4, amended. When \<open>synthesize_answer\<close> is called with a non-empty list of search
  results and the invocation of the text-generation service that it makes fails with the
  exception \<open>e\<close> (in \<open>chat_completion\<close>, or in \<open>extract_text\<close> on the response), then
  \<open>synthesize_answer\<close> does not raise: it returns a dictionary whose error field carries
  the text of \<open>e\<close>, with the fixed content ``An error occurred while synthesizing the
  answer.'', no sources and no confidence.
\<close>

theorem synthesize_answer_generation_failure:
  assumes "rs \<noteq> []"
      and "get_svc = Inr svc"
      and "snd (synthesize_answer get_svc q (Some rs)) = [(msgs, t)]"
      and "chat_completion svc msgs t = Inl e
           \<or> (\<exists>response. chat_completion svc msgs t = Inr response
                 \<and> extract_text svc response = Inl e)"
  shows "fst (synthesize_answer get_svc q (Some rs)) =
           Inr \<lparr>answer_query = q, answer_error = Some (str_exn e),
                answer_content = ''An error occurred while synthesizing the answer.'',
                answer_sources = [], answer_sources_count = None, answer_confidence = None\<rparr>"
proof -
  obtain res calls where body: "synthesize_body (Inr svc) q rs = (res, calls)"
    by (cases "synthesize_body (Inr svc) q rs")
  from assms(1,2) body have run:
    "synthesize_answer get_svc q (Some rs) =
       (case res of
          Inl e \<Rightarrow>
            (Inr \<lparr>answer_query = q, answer_error = Some (str_exn e),
                  answer_content = ''An error occurred while synthesizing the answer.'',
                  answer_sources = [], answer_sources_count = None,
                  answer_confidence = None\<rparr>, calls)
        | Inr answer \<Rightarrow> (Inr answer, calls))"
    by (simp add: synthesize_answer_def split: sum.splits)
  then have "snd (synthesize_answer get_svc q (Some rs)) = calls"
    by (simp split: sum.splits)
  with assms(3) body have "synthesize_body (Inr svc) q rs = (res, [(msgs, t)])" by simp
  from synthesize_body_failure [OF this assms(4)] have "res = Inl e" .
  with run show ?thesis by simp
qed

theorem synthesize_answer_generation_failure_witness:
  "example_results \<noteq> []
   \<and> chat_completion failing_service
       (fst (hd (snd (synthesize_answer (Inr failing_service) ''battery recycling''
                        (Some example_results)))))
       0.5 = Inl (Exception ''quota exceeded'' None)
   \<and> fst (synthesize_answer (Inr failing_service) ''battery recycling'' (Some example_results))
      = Inr \<lparr>answer_query = ''battery recycling'',
             answer_error = Some (str_exn (Exception ''quota exceeded'' None)),
             answer_content = ''An error occurred while synthesizing the answer.'',
             answer_sources = [], answer_sources_count = None, answer_confidence = None\<rparr>"
proof -
  let ?run = "synthesize_answer (Inr failing_service) ''battery recycling''
                (Some example_results)"
  have n: "example_results \<noteq> []" by (simp add: example_results_def)
  have "\<exists>msgs. snd ?run = [(msgs, 0.5)]"
    by (simp add: synthesize_answer_def synthesize_body_def failing_service_def
          example_results_def get_def Let_def)
  then obtain msgs where c: "snd ?run = [(msgs, 0.5)]" by blast
  have f: "chat_completion failing_service msgs 0.5 = Inl (Exception ''quota exceeded'' None)"
    by (simp add: failing_service_def)
  then have d: "chat_completion failing_service msgs 0.5 = Inl (Exception ''quota exceeded'' None)
           \<or> (\<exists>response. chat_completion failing_service msgs 0.5 = Inr response
                 \<and> extract_text failing_service response = Inl (Exception ''quota exceeded'' None))"
    by (rule disjI1)
  note t = synthesize_answer_generation_failure [OF n refl c d]
  from c f have "chat_completion failing_service (fst (hd (snd ?run))) 0.5
      = Inl (Exception ''quota exceeded'' None)"
    by simp
  with n t show ?thesis by (intro conjI)
qed

lemma plan_body_failure:
  assumes "plan_body (Inr svc) q sources = (res, calls)"
      and "(msgs, t) \<in> set calls"
      and "chat_completion svc msgs t = Inl e
           \<or> (\<exists>response. chat_completion svc msgs t = Inr response
                 \<and> extract_text svc response = Inl e)"
  shows "res = Inl e
       \<and> (t = 0.3 \<and> msgs = [\<lparr>role = ''user'', content = keyword_prompt q\<rparr>]
          \<or> t = 0.5 \<and> (\<exists>ks. msgs = [\<lparr>role = ''user'', content = strategy_prompt q ks\<rparr>]))"
proof -
  define m1 where "m1 = [\<lparr>role = ''user'', content = keyword_prompt q\<rparr>]"
  define m2 where
    "m2 = (\<lambda>keywords_text.
             [\<lparr>role = ''user'',
               content = strategy_prompt q (parse_keywords keywords_text)\<rparr>])"
  define T1 where "T1 = (0.3::real)"
  define T2 where "T2 = (0.5::real)"
  define ok where
    "ok = (\<lambda>keywords_text strategy.
             \<lparr>plan_query = q, plan_error = None, plan_strategy = Some (strip strategy),
              plan_keywords = parse_keywords keywords_text,
              plan_search_steps = search_steps_of q (parse_keywords keywords_text) sources,
              plan_sources = sources\<rparr>)"
  have ne: "T1 \<noteq> T2" by (simp add: T1_def T2_def)
  have body: "plan_body (Inr svc) q sources =
      (case chat_completion svc m1 T1 of
         Inl e \<Rightarrow> (Inl e, [(m1, T1)])
       | Inr keywords_response \<Rightarrow>
          (case extract_text svc keywords_response of
             Inl e \<Rightarrow> (Inl e, [(m1, T1)])
           | Inr keywords_text \<Rightarrow>
              (case chat_completion svc (m2 keywords_text) T2 of
                 Inl e \<Rightarrow> (Inl e, [(m1, T1), (m2 keywords_text, T2)])
               | Inr strategy_response \<Rightarrow>
                  (case extract_text svc strategy_response of
                     Inl e \<Rightarrow> (Inl e, [(m1, T1), (m2 keywords_text, T2)])
                   | Inr strategy \<Rightarrow>
                      (Inr (ok keywords_text strategy),
                       [(m1, T1), (m2 keywords_text, T2)])))))"
    unfolding plan_body_def m1_def m2_def T1_def T2_def ok_def Let_def by simp
  from assms ne
  have "res = Inl e \<and> (t = T1 \<and> msgs = m1 \<or> t = T2 \<and> (\<exists>kt. msgs = m2 kt))"
    unfolding body by (auto split: sum.splits)
  then have r: "res = Inl e"
    and c: "t = T1 \<and> msgs = m1 \<or> t = T2 \<and> (\<exists>kt. msgs = m2 kt)"
    by simp_all
  from c have "t = 0.3 \<and> msgs = [\<lparr>role = ''user'', content = keyword_prompt q\<rparr>]
          \<or> t = 0.5 \<and> (\<exists>ks. msgs = [\<lparr>role = ''user'', content = strategy_prompt q ks\<rparr>])"
    unfolding T1_def T2_def m1_def m2_def by blast
  with r show ?thesis by (rule conjI)
qed

text \<open>
  C5, as stated, fails: when the request for the strategy fails, \<open>create_research_plan\<close>
  does not fail. It returns a dictionary.
\<close>

theorem create_research_plan_failure_counterexample:
  "chat_completion strategy_failing_service
     [\<lparr>role = ''user'',
       content = strategy_prompt ''battery recycling''
                   [''anode'', ''cathode'', ''lithium'', ''cobalt'']\<rparr>] 0.5
     = Inl (Exception ''quota exceeded'' None)
   \<and> fst (create_research_plan (Inr strategy_failing_service) ''battery recycling'' None)
      = Inr \<lparr>plan_query = ''battery recycling'', plan_error = Some ''quota exceeded'',
             plan_strategy = None, plan_keywords = [], plan_search_steps = [],
             plan_sources = [''google'', ''arxiv'']\<rparr>
   \<and> \<not> isl (fst (create_research_plan (Inr strategy_failing_service)
                    ''battery recycling'' None))"
  by (simp add: create_research_plan_def plan_body_def strategy_failing_service_def Let_def)

text \<open>
  C5, amended. For every question, when an invocation of the text-generation service that
  \<open>create_research_plan\<close> makes (the request for the keywords, at temperature 0.3, or
  the request for the strategy, at temperature 0.5) fails with the exception \<open>e\<close>, in
  \<open>chat_completion\<close> or in \<open>extract_text\<close> on the response, then
  \<open>create_research_plan\<close> does not raise: it returns a dictionary whose error field
  carries the text of \<open>e\<close>, with no strategy, no keywords and no search steps, so never a
  part of a plan.
\<close>

theorem create_research_plan_generation_failure:
  assumes "get_svc = Inr svc"
      and "(msgs, t) \<in> set (snd (create_research_plan get_svc q srcs))"
      and "chat_completion svc msgs t = Inl e
           \<or> (\<exists>response. chat_completion svc msgs t = Inr response
                 \<and> extract_text svc response = Inl e)"
  shows "fst (create_research_plan get_svc q srcs) =
           Inr \<lparr>plan_query = q, plan_error = Some (str_exn e), plan_strategy = None,
                plan_keywords = [], plan_search_steps = [],
                plan_sources = (case srcs of None \<Rightarrow> [''google'', ''arxiv''] | Some s \<Rightarrow> s)\<rparr>
         \<and> (t = 0.3 \<or> t = 0.5)
         \<and> (t = 0.3 \<and> msgs = [\<lparr>role = ''user'', content = keyword_prompt q\<rparr>]
            \<or> t = 0.5 \<and> (\<exists>ks. msgs = [\<lparr>role = ''user'', content = strategy_prompt q ks\<rparr>]))"
proof -
  let ?sources = "case srcs of None \<Rightarrow> [''google'', ''arxiv''] | Some s \<Rightarrow> s"
  obtain res calls where body: "plan_body (Inr svc) q ?sources = (res, calls)"
    by (cases "plan_body (Inr svc) q ?sources")
  from assms(1) body have run:
    "create_research_plan get_svc q srcs =
       (case res of
          Inl e \<Rightarrow>
            (Inr \<lparr>plan_query = q, plan_error = Some (str_exn e), plan_strategy = None,
                  plan_keywords = [], plan_search_steps = [], plan_sources = ?sources\<rparr>,
             calls)
        | Inr plan \<Rightarrow> (Inr plan, calls))"
    by (simp add: create_research_plan_def split: sum.splits)
  then have "snd (create_research_plan get_svc q srcs) = calls"
    by (simp split: sum.splits)
  with assms(2) have "(msgs, t) \<in> set calls" by simp
  note f = plan_body_failure [OF body this assms(3)]
  from f have res: "res = Inl e" by (rule conjunct1)
  from f have which:
    "t = 0.3 \<and> msgs = [\<lparr>role = ''user'', content = keyword_prompt q\<rparr>]
     \<or> t = 0.5 \<and> (\<exists>ks. msgs = [\<lparr>role = ''user'', content = strategy_prompt q ks\<rparr>])"
    by (rule conjunct2)
  then have t: "t = 0.3 \<or> t = 0.5" by blast
  from run res have "fst (create_research_plan get_svc q srcs) =
           Inr \<lparr>plan_query = q, plan_error = Some (str_exn e), plan_strategy = None,
                plan_keywords = [], plan_search_steps = [], plan_sources = ?sources\<rparr>"
    by simp
  with t which show ?thesis by (intro conjI)
qed

lemma strategy_failing_calls:
  "snd (create_research_plan (Inr strategy_failing_service) ''battery recycling'' None) =
     [([\<lparr>role = ''user'', content = keyword_prompt ''battery recycling''\<rparr>], 0.3),
      ([\<lparr>role = ''user'',
         content = strategy_prompt ''battery recycling''
                     [''anode'', ''cathode'', ''lithium'', ''cobalt'']\<rparr>], 0.5)]"
  by (simp add: create_research_plan_def plan_body_def strategy_failing_service_def Let_def
        parse_keywords_def strip_def isspace_def)

lemma failing_plan_calls:
  "snd (create_research_plan (Inr failing_service) ''battery recycling'' None) =
     [([\<lparr>role = ''user'', content = keyword_prompt ''battery recycling''\<rparr>], 0.3)]"
  by (simp add: create_research_plan_def plan_body_def failing_service_def Let_def)

lemma extraction_failing_keywords:
  "chat_completion extraction_failing_service m 0.3 = Inr ''anode\<newline>cathode''"
  "extract_text extraction_failing_service ''anode\<newline>cathode'' = Inr ''anode\<newline>cathode''"
  "parse_keywords ''anode\<newline>cathode'' = [''anode'', ''cathode'']"
  by (simp_all add: extraction_failing_service_def parse_keywords_def strip_def isspace_def)

lemma extraction_failing_strategy:
  "chat_completion extraction_failing_service m (1 / 2) = Inr ''strategy''"
  "extract_text extraction_failing_service ''strategy'' = Inl (Exception ''no choices'' None)"
  by (simp_all add: extraction_failing_service_def)

lemma extraction_failing_calls:
  "snd (create_research_plan (Inr extraction_failing_service) ''battery recycling'' None) =
     [([\<lparr>role = ''user'', content = keyword_prompt ''battery recycling''\<rparr>], 0.3),
      ([\<lparr>role = ''user'',
         content = strategy_prompt ''battery recycling'' [''anode'', ''cathode'']\<rparr>], 0.5)]"
  by (simp add: create_research_plan_def plan_body_def Let_def
        extraction_failing_keywords extraction_failing_strategy)

theorem create_research_plan_generation_failure_witness:
  "fst (create_research_plan (Inr strategy_failing_service) ''battery recycling'' None) =
     Inr \<lparr>plan_query = ''battery recycling'',
          plan_error = Some (str_exn (Exception ''quota exceeded'' None)),
          plan_strategy = None, plan_keywords = [], plan_search_steps = [],
          plan_sources = (case None of None \<Rightarrow> [''google'', ''arxiv''] | Some s \<Rightarrow> s)\<rparr>
   \<and> fst (create_research_plan (Inr failing_service) ''battery recycling'' None) =
     Inr \<lparr>plan_query = ''battery recycling'',
          plan_error = Some (str_exn (Exception ''quota exceeded'' None)),
          plan_strategy = None, plan_keywords = [], plan_search_steps = [],
          plan_sources = (case None of None \<Rightarrow> [''google'', ''arxiv''] | Some s \<Rightarrow> s)\<rparr>
   \<and> fst (create_research_plan (Inr extraction_failing_service) ''battery recycling'' None) =
     Inr \<lparr>plan_query = ''battery recycling'',
          plan_error = Some (str_exn (Exception ''no choices'' None)),
          plan_strategy = None, plan_keywords = [], plan_search_steps = [],
          plan_sources = (case None of None \<Rightarrow> [''google'', ''arxiv''] | Some s \<Rightarrow> s)\<rparr>"
proof -
  let ?m2 = "[\<lparr>role = ''user'',
               content = strategy_prompt ''battery recycling''
                           [''anode'', ''cathode'', ''lithium'', ''cobalt'']\<rparr>]"
  let ?m1 = "[\<lparr>role = ''user'', content = keyword_prompt ''battery recycling''\<rparr>]"
  let ?m3 = "[\<lparr>role = ''user'',
               content = strategy_prompt ''battery recycling'' [''anode'', ''cathode'']\<rparr>]"
  let ?quota = "Exception ''quota exceeded'' None"
  let ?choices = "Exception ''no choices'' None"
  have m2: "(?m2, 0.5) \<in> set (snd (create_research_plan (Inr strategy_failing_service)
                                     ''battery recycling'' None))"
    unfolding strategy_failing_calls by simp
  have "chat_completion strategy_failing_service ?m2 0.5 = Inl ?quota"
    by (simp add: strategy_failing_service_def)
  then have f2: "chat_completion strategy_failing_service ?m2 0.5 = Inl ?quota
      \<or> (\<exists>response. chat_completion strategy_failing_service ?m2 0.5 = Inr response
            \<and> extract_text strategy_failing_service response = Inl ?quota)"
    by (rule disjI1)
  have m1: "(?m1, 0.3) \<in> set (snd (create_research_plan (Inr failing_service)
                                     ''battery recycling'' None))"
    unfolding failing_plan_calls by simp
  have "chat_completion failing_service ?m1 0.3 = Inl ?quota"
    by (simp add: failing_service_def)
  then have f1: "chat_completion failing_service ?m1 0.3 = Inl ?quota
      \<or> (\<exists>response. chat_completion failing_service ?m1 0.3 = Inr response
            \<and> extract_text failing_service response = Inl ?quota)"
    by (rule disjI1)
  have m3: "(?m3, 0.5) \<in> set (snd (create_research_plan (Inr extraction_failing_service)
                                     ''battery recycling'' None))"
    unfolding extraction_failing_calls by simp
  have c3: "chat_completion extraction_failing_service ?m3 0.5 = Inr ''strategy''"
    by (simp add: extraction_failing_strategy)
  have e3: "extract_text extraction_failing_service ''strategy'' = Inl ?choices"
    by (simp add: extraction_failing_strategy)
  from c3 e3
  have f3: "chat_completion extraction_failing_service ?m3 0.5 = Inl ?choices
      \<or> (\<exists>response. chat_completion extraction_failing_service ?m3 0.5 = Inr response
            \<and> extract_text extraction_failing_service response = Inl ?choices)"
    by blast
  from create_research_plan_generation_failure [OF refl m2 f2, THEN conjunct1]
       create_research_plan_generation_failure [OF refl m1 f1, THEN conjunct1]
       create_research_plan_generation_failure [OF refl m3 f3, THEN conjunct1]
  show ?thesis by (intro conjI)
qed




section \<open>Claim on the request\<close>

text \<open>
  C7. Every request to \<^verbatim>\<open>POST /research\<close> whose content is empty or longer than 2000
  characters, or whose list of search sources is empty, is answered with a validation error
  that lists at least one violated constraint, and the workflow (so its planning stage) is
  not started.
\<close>

theorem invalid_request_rejected:
  assumes "body_content = [] \<or> length body_content > 2000 \<or> body_search_sources = []"
  shows "\<exists>errors. errors \<noteq> []
           \<and> post_research workflow str_source assemble body_content body_search_sources
               = (Inl (RequestValidationError errors), [])"
  using assms
  by (auto simp: post_research_def validate_ResearchRequest_def Let_def)

theorem invalid_request_rejected_witness:
  "(\<exists>errors. errors \<noteq> []
      \<and> post_research echo_workflow source_name echo_assemble [] [GOOGLE]
          = (Inl (RequestValidationError errors), []))
   \<and> length (replicate 2001 CHR ''a'') > 2000
   \<and> (\<exists>errors. errors \<noteq> []
      \<and> post_research echo_workflow source_name echo_assemble (replicate 2001 CHR ''a'')
            [GOOGLE]
          = (Inl (RequestValidationError errors), []))
   \<and> (\<exists>errors. errors \<noteq> []
      \<and> post_research echo_workflow source_name echo_assemble ''battery recycling'' []
          = (Inl (RequestValidationError errors), []))
   \<and> post_research echo_workflow source_name echo_assemble ''battery recycling'' [GOOGLE]
       = (Inr (''battery recycling'', [''google'']),
          [(''battery recycling'', [''google''])])"
proof -
  have l: "length (replicate 2001 CHR ''a'') > 2000" by simp
  have a: "([]::string) = [] \<or> length ([]::string) > 2000 \<or> [GOOGLE] = []" by simp
  have b: "replicate 2001 CHR ''a'' = [] \<or> length (replicate 2001 CHR ''a'') > 2000
           \<or> [GOOGLE] = []"
    using l by simp
  have c: "''battery recycling'' = [] \<or> length ''battery recycling'' > 2000
           \<or> ([]::SearchSource list) = []"
    by simp
  have ok: "post_research echo_workflow source_name echo_assemble ''battery recycling''
              [GOOGLE]
       = (Inr (''battery recycling'', [''google'']),
          [(''battery recycling'', [''google''])])"
    by (simp add: post_research_def validate_ResearchRequest_def submit_research_def
          echo_workflow_def echo_assemble_def Let_def)
  from invalid_request_rejected [OF a, of echo_workflow source_name echo_assemble]
       l
       invalid_request_rejected [OF b, of echo_workflow source_name echo_assemble]
       invalid_request_rejected [OF c, of echo_workflow source_name echo_assemble]
       ok
  show ?thesis by (intro conjI)
qed

section \<open>Joining keywords\<close>

lemma join_Cons: "join sep (k # ks) = k @ concat (map (\<lambda>x. sep @ x) ks)"
  by (induction ks arbitrary: k) simp_all

text \<open>
  C8. \<open>search_with_keywords\<close> with keywords \<open>ks\<close> and limit \<open>n\<close> gives what \<open>search\<close> gives
  on the one query string made of the keywords with one space between neighbours, with the
  same limit; the query string of no keywords is empty, and that of \<open>k # ks\<close> is \<open>k\<close>
  followed by each further keyword with one space before it.
\<close>

theorem search_with_keywords_joins:
  "search_with_keywords text SearchResult query_id ks n =
     search text SearchResult (join '' '' ks) query_id n
   \<and> join '' '' [] = []
   \<and> join '' '' (k # ks) = k @ concat (map (\<lambda>x. '' '' @ x) ks)"
  by (simp add: search_with_keywords_def join_Cons)

end
